theory Spec2Isabelle
  imports Complex_Main "HOL-Library.Sublist"
begin

section \<open>Strings and the string built-ins the components call\<close>

text \<open>
  Route paths and names are modelled as \<^typ>\<open>string\<close>, one character per code unit.
  \<open>s.startsWith(t)\<close> compares code units from position 0, which is the list prefix test.
\<close>

definition startsWith :: "string \<Rightarrow> string \<Rightarrow> bool" where
  "startsWith s t = prefix t s"

section \<open>Navigation item lists\<close>

text \<open>
  \<open>navigationMenus\<close> of \<open>Navbar.vue\<close>: a computed list of six object literals, each
  with its own test on \<open>route.path\<close>. The argument is the current \<open>route.path\<close>.
\<close>

record nav_item =
  item_id :: string
  item_name :: string
  path :: string
  isActive :: bool

definition navigationMenus :: "string \<Rightarrow> nav_item list" where
  "navigationMenus route_path =
    [ \<lparr> item_id = ''home'', item_name = ''Home'', path = ''/'',
        isActive = (route_path = ''/'') \<rparr>,
      \<lparr> item_id = ''courses'', item_name = ''Courses'', path = ''/courses'',
        isActive = startsWith route_path ''/courses'' \<rparr>,
      \<lparr> item_id = ''opportunities'', item_name = ''Jobs'', path = ''/opportunities'',
        isActive = startsWith route_path ''/opportunities'' \<rparr>,
      \<lparr> item_id = ''programs'', item_name = ''Programs'', path = ''/programs'',
        isActive = startsWith route_path ''/programs'' \<rparr>,
      \<lparr> item_id = ''about-us'', item_name = ''About Us'', path = ''/about-us'',
        isActive = startsWith route_path ''/about-us'' \<rparr>,
      \<lparr> item_id = ''contact'', item_name = ''Contact Us'', path = ''/contact'',
        isActive = startsWith route_path ''/contact'' \<rparr> ]"

text \<open>
  \<open>dashboardNavigation\<close> of \<open>DashboardNavbar.vue\<close>: four object literals, which carry
  an icon name as well.
\<close>

record dash_item = nav_item +
  icon :: string

definition dashboardNavigation :: "string \<Rightarrow> dash_item list" where
  "dashboardNavigation route_path =
    [ \<lparr> item_id = ''dashboard'', item_name = ''Dashboard'', path = ''/dashboard'',
        isActive = (route_path = ''/dashboard''), icon = ''lucide:layout-dashboard'' \<rparr>,
      \<lparr> item_id = ''course'', item_name = ''Course'', path = ''/dashboard/course'',
        isActive = startsWith route_path ''/dashboard/course'', icon = ''lucide:book'' \<rparr>,
      \<lparr> item_id = ''jobs'', item_name = ''Jobs'', path = ''/dashboard/jobs'',
        isActive = startsWith route_path ''/dashboard/jobs'', icon = ''lucide:briefcase'' \<rparr>,
      \<lparr> item_id = ''programs'', item_name = ''Programs'', path = ''/dashboard/programs'',
        isActive = startsWith route_path ''/dashboard/programs'', icon = ''lucide:school'' \<rparr> ]"

text \<open>The ids of the items whose flag is set, in list order.\<close>

definition activeIds :: "('a nav_item_scheme) list \<Rightarrow> string list" where
  "activeIds items = map item_id (filter isActive items)"

section \<open>Session-derived display state\<close>

text \<open>
  A field of the session's user object as the script reads it: the property may be
  missing (\<open>undefined\<close>), \<open>null\<close>, or a string. The repository's \<open>Session\<close> type
  declares \<open>firstName: string\<close> and \<open>lastName: string\<close>, so a well-typed user carries
  \<open>Str\<close> values and a name that is not set is the empty string; the other two values are
  what the \<open>?.\<close> guards of \<open>initials\<close> provide for.
\<close>

datatype jsval = Undefined | Null | Str string

record user_obj =
  firstName :: jsval
  lastName :: jsval

record session_data =
  session_user :: "user_obj option"

datatype auth_status = loading | authenticated | unauthenticated

text \<open>\<open>session.value?.user || null\<close>: no session object, or one without a user, gives null.\<close>

definition user :: "session_data option \<Rightarrow> user_obj option" where
  "user session = (case session of None \<Rightarrow> None | Some d \<Rightarrow> session_user d)"

text \<open>\<open>status.value === 'authenticated'\<close> (public navbar only).\<close>

definition isAuthenticated :: "auth_status \<Rightarrow> bool" where
  "isAuthenticated status = (status = authenticated)"

text \<open>What a template literal \<open>${v}\<close> inserts for a field value.\<close>

fun toString :: "jsval \<Rightarrow> string" where
  "toString Undefined = ''undefined''"
| "toString Null = ''null''"
| "toString (Str s) = s"

text \<open>
  \<open>String.prototype.trim\<close>: the white space and line terminator code units below 256 are
  TAB, LF, VT, FF, CR, SP and NBSP.
\<close>

definition isWhiteSpace :: "char \<Rightarrow> bool" where
  "isWhiteSpace c = (of_char c \<in> {9, 10, 11, 12, 13, 32, 160 :: nat})"

definition trim :: "string \<Rightarrow> string" where
  "trim s = rev (dropWhile isWhiteSpace (rev (dropWhile isWhiteSpace s)))"

text \<open>
  \<open>String.prototype.toUpperCase\<close> belongs to the runtime, not to the components, and its
  Unicode case mapping is not fixed here: \<open>initials\<close> below takes it as a parameter. The
  function \<open>asciiToUpperCase\<close> is one such mapping, which agrees with the built-in on
  ASCII strings (the letters a to z move to A to Z); it serves to run the definitions on
  concrete names.
\<close>

definition asciiToUpperChar :: "char \<Rightarrow> char" where
  "asciiToUpperChar c =
     (let n = of_char c :: nat in if 97 \<le> n \<and> n \<le> 122 then char_of (n - 32) else c)"

definition asciiToUpperCase :: "string \<Rightarrow> string" where
  "asciiToUpperCase s = map asciiToUpperChar s"

text \<open>
  \<open>v?.[0] || ''\<close>: \<open>undefined\<close> for a missing or null field and for the empty string,
  which \<open>||\<close> turns into the empty string; otherwise the one-character string at index 0.
\<close>

fun firstCharOrEmpty :: "jsval \<Rightarrow> string" where
  "firstCharOrEmpty Undefined = []"
| "firstCharOrEmpty Null = []"
| "firstCharOrEmpty (Str s) = take 1 s"

text \<open>
  \<open>fullName\<close> and \<open>initials\<close> of \<open>Navbar.vue\<close>; the last argument is \<open>user.value\<close>,
  and \<open>toUpperCase\<close> is the runtime's method.
\<close>

definition navbar_fullName :: "user_obj option \<Rightarrow> string" where
  "navbar_fullName u =
     (case u of None \<Rightarrow> []
      | Some v \<Rightarrow> trim (toString (firstName v) @ '' '' @ toString (lastName v)))"

definition navbar_initials ::
  "(string \<Rightarrow> string) \<Rightarrow> user_obj option \<Rightarrow> string" where
  "navbar_initials toUpperCase u =
     (case u of None \<Rightarrow> ''U''
      | Some v \<Rightarrow>
          (let first = firstCharOrEmpty (firstName v);
               last = firstCharOrEmpty (lastName v);
               r = toUpperCase (first @ last)
           in if r = [] then ''U'' else r))"

text \<open>\<open>fullName\<close> and \<open>initials\<close> of \<open>DashboardNavbar.vue\<close>.\<close>

definition dashboard_fullName :: "user_obj option \<Rightarrow> string" where
  "dashboard_fullName u =
     (case u of None \<Rightarrow> ''User''
      | Some v \<Rightarrow> trim (toString (firstName v) @ '' '' @ toString (lastName v)))"

definition dashboard_initials ::
  "(string \<Rightarrow> string) \<Rightarrow> user_obj option \<Rightarrow> string" where
  "dashboard_initials toUpperCase u =
     (case u of None \<Rightarrow> ''U''
      | Some v \<Rightarrow>
          (let first = firstCharOrEmpty (firstName v);
               last = firstCharOrEmpty (lastName v);
               r = toUpperCase (first @ last)
           in if r = [] then ''U'' else r))"

section \<open>Transient UI state and its handlers\<close>

text \<open>
  The refs of the two components. Both have \<open>mobileMenuOpen\<close>; the public navbar adds
  \<open>isScrolled\<close> and \<open>showLoginDialog\<close>. All start as \<open>false\<close>.
\<close>

record ui_state =
  mobileMenuOpen :: bool

record navbar_state = ui_state +
  isScrolled :: bool
  showLoginDialog :: bool

definition navbar_init :: navbar_state where
  "navbar_init = \<lparr> mobileMenuOpen = False, isScrolled = False, showLoginDialog = False \<rparr>"

definition dashboard_init :: ui_state where
  "dashboard_init = \<lparr> mobileMenuOpen = False \<rparr>"

definition toggleMobileMenu :: "navbar_state \<Rightarrow> navbar_state" where
  "toggleMobileMenu s = s\<lparr> mobileMenuOpen := \<not> mobileMenuOpen s \<rparr>"

definition openLoginDialog :: "navbar_state \<Rightarrow> navbar_state" where
  "openLoginDialog s = s\<lparr> showLoginDialog := True, mobileMenuOpen := False \<rparr>"

text \<open>\<open>handleScroll\<close>; the first argument is the value of \<open>window.scrollY\<close> it reads.\<close>

definition handleScroll :: "real \<Rightarrow> navbar_state \<Rightarrow> navbar_state" where
  "handleScroll scrollY s = s\<lparr> isScrolled := (scrollY > 0) \<rparr>"

text \<open>
  \<open>watch(() => route.path, () => { mobileMenuOpen.value = false })\<close>: the callback runs
  when the watched value has changed, from \<open>old\<close> to \<open>new\<close>.
\<close>

definition navbar_watch_route_path :: "string \<Rightarrow> string \<Rightarrow> navbar_state \<Rightarrow> navbar_state" where
  "navbar_watch_route_path old new s =
     (if new \<noteq> old then s\<lparr> mobileMenuOpen := False \<rparr> else s)"

definition dashboard_watch_route_path :: "string \<Rightarrow> string \<Rightarrow> ui_state \<Rightarrow> ui_state" where
  "dashboard_watch_route_path old new s =
     (if new \<noteq> old then s\<lparr> mobileMenuOpen := False \<rparr> else s)"

text \<open>
  A DOM node has a tag name and an identity. The target of a click event is an element,
  given with its ancestors from the parent outwards, or a node that is not an element and
  has no \<open>closest\<close> method (the document itself, for a click dispatched on it).
  \<open>el.closest(sel)\<close> with a tag selector walks from the element outwards and returns the
  first element with that tag name, or null.
\<close>

record node =
  tag :: string
  node_id :: nat

datatype click_target = Element node "node list" | NotElement

datatype js_error = TypeError

fun closest :: "string \<Rightarrow> node list \<Rightarrow> node option" where
  "closest sel [] = None"
| "closest sel (n # ancestors) = (if tag n = sel then Some n else closest sel ancestors)"

text \<open>
  The document click listeners of the two components; the first argument is
  \<open>event.target\<close>. Calling \<open>closest\<close> on a target without that method throws, and no
  ref is written.
\<close>

definition navbar_clickListener ::
  "click_target \<Rightarrow> navbar_state \<Rightarrow> js_error + navbar_state" where
  "navbar_clickListener target s =
     (case target of
        NotElement \<Rightarrow> Inl TypeError
      | Element e ancestors \<Rightarrow>
          Inr (if closest ''header'' (e # ancestors) = None
               then s\<lparr> mobileMenuOpen := False \<rparr> else s))"

definition handleClickOutside :: "click_target \<Rightarrow> ui_state \<Rightarrow> js_error + ui_state" where
  "handleClickOutside target s =
     (case target of
        NotElement \<Rightarrow> Inl TypeError
      | Element e ancestors \<Rightarrow>
          Inr (if closest ''header'' (e # ancestors) = None
               then s\<lparr> mobileMenuOpen := False \<rparr> else s))"

section \<open>Logout\<close>

text \<open>
  The statements of \<open>handleLogout\<close> that act on the outside or on the refs, logged in the
  order they run. Only the write to \<open>mobileMenuOpen\<close> changes the component's state.
\<close>

datatype action = CallSignOut | SetMobileMenuOpen bool | CallNavigateTo string

definition perform ::
  "action \<Rightarrow> 'a ui_state_scheme \<times> action list \<Rightarrow> 'a ui_state_scheme \<times> action list" where
  "perform a st =
     (case a of
        SetMobileMenuOpen b \<Rightarrow> ((fst st)\<lparr> mobileMenuOpen := b \<rparr>, snd st @ [a])
      | _ \<Rightarrow> (fst st, snd st @ [a]))"

text \<open>
  \<open>Navbar.vue\<close>: \<open>signOut()\<close> is called and not awaited, then the menu is closed, then
  \<open>navigateTo('/')\<close> is awaited as the last statement.
\<close>

definition navbar_handleLogout :: "navbar_state \<Rightarrow> navbar_state \<times> action list" where
  "navbar_handleLogout s =
     perform (CallNavigateTo ''/'')
       (perform (SetMobileMenuOpen False)
         (perform CallSignOut (s, [])))"

text \<open>
  \<open>DashboardNavbar.vue\<close>: the menu is closed, then \<open>signOut()\<close> is awaited, then
  \<open>navigateTo('/')\<close>. The awaited promise may be fulfilled, be rejected (the function
  then throws and the rest is skipped) or stay pending.
\<close>

datatype settled = Fulfilled | Rejected | Pending

definition dashboard_handleLogout :: "settled \<Rightarrow> ui_state \<Rightarrow> ui_state \<times> action list" where
  "dashboard_handleLogout signOut_result s =
     (let st = perform CallSignOut (perform (SetMobileMenuOpen False) (s, []))
      in case signOut_result of
           Fulfilled \<Rightarrow> perform (CallNavigateTo ''/'') st
         | Rejected \<Rightarrow> st
         | Pending \<Rightarrow> st)"

section \<open>Global listeners and the component lifecycle\<close>

text \<open>
  A listener is registered on a target under an event name with a callback. Callbacks are
  function objects created by one component instance, so they carry the instance's number:
  \<open>handleScroll\<close> and the anonymous arrow function of \<open>Navbar.vue\<close>, and
  \<open>handleClickOutside\<close> of \<open>DashboardNavbar.vue\<close>.
\<close>

datatype event_target = Window | Document

datatype callback = HandleScroll nat | NavbarAnonymousClick nat | HandleClickOutside nat

type_synonym listener = "event_target \<times> string \<times> callback"

text \<open>
  \<open>addEventListener\<close> ignores a listener that is already registered;
  \<open>removeEventListener\<close> removes the listener with the same target, name and callback.
\<close>

definition addEventListener :: "listener \<Rightarrow> listener list \<Rightarrow> listener list" where
  "addEventListener l reg = (if l \<in> set reg then reg else reg @ [l])"

definition removeEventListener :: "listener \<Rightarrow> listener list \<Rightarrow> listener list" where
  "removeEventListener l reg = filter (\<lambda>x. x \<noteq> l) reg"

text \<open>
  \<open>Navbar.vue\<close>: \<open>onMounted\<close> registers the anonymous click listener and
  \<open>handleScroll\<close>, then calls \<open>handleScroll()\<close>; \<open>onUnmounted\<close> removes
  \<open>handleScroll\<close>. The state is the component's refs with the registered listeners.
\<close>

definition navbar_onMounted ::
  "nat \<Rightarrow> real \<Rightarrow> navbar_state \<times> listener list \<Rightarrow> navbar_state \<times> listener list" where
  "navbar_onMounted inst scrollY st =
     (let reg1 = addEventListener (Document, ''click'', NavbarAnonymousClick inst) (snd st);
          reg2 = addEventListener (Window, ''scroll'', HandleScroll inst) reg1
      in (handleScroll scrollY (fst st), reg2))"

definition navbar_onUnmounted ::
  "nat \<Rightarrow> navbar_state \<times> listener list \<Rightarrow> navbar_state \<times> listener list" where
  "navbar_onUnmounted inst st =
     (fst st, removeEventListener (Window, ''scroll'', HandleScroll inst) (snd st))"

text \<open>
  \<open>DashboardNavbar.vue\<close>: \<open>onMounted\<close> registers \<open>handleClickOutside\<close> and, inside
  the same callback, registers an \<open>onUnmounted\<close> hook that removes it. The hooks an
  instance has registered are kept in a list and run at unmount.
\<close>

datatype hook = RemoveEventListener listener

fun run_hook :: "hook \<Rightarrow> listener list \<Rightarrow> listener list" where
  "run_hook (RemoveEventListener l) reg = removeEventListener l reg"

definition dashboard_onMounted ::
  "nat \<Rightarrow> listener list \<times> hook list \<Rightarrow> listener list \<times> hook list" where
  "dashboard_onMounted inst st =
     (let l = (Document, ''click'', HandleClickOutside inst)
      in (addEventListener l (fst st), snd st @ [RemoveEventListener l]))"

definition dashboard_unmount :: "listener list \<times> hook list \<Rightarrow> listener list \<times> hook list" where
  "dashboard_unmount st = (fold run_hook (snd st) (fst st), snd st)"

section \<open>Navigation: active flags\<close>

lemma startsWith_exclusive:
  "startsWith p a \<Longrightarrow> startsWith p b \<Longrightarrow> prefix a b \<or> prefix b a"
  unfolding startsWith_def by (rule prefix_same_cases)

text \<open>
  C1. For every route path, the public navbar's list is the six items home, courses,
  opportunities, programs, about-us and contact with their paths, the dashboard navbar's
  list is the four items dashboard, course, jobs and programs with theirs, and the active
  flag of each item is determined by the route path: the root item (path \<open>/\<close>, and
  \<open>/dashboard\<close> in the dashboard navbar) is active exactly when the route path equals
  its path, and every other item is active exactly when the route path starts with the
  item's path (a plain prefix test on the strings).
\<close>

theorem nav_active_policy:
  "map (\<lambda>m. (item_id m, path m)) (navigationMenus p)
     = [(''home'', ''/''), (''courses'', ''/courses''), (''opportunities'', ''/opportunities''),
        (''programs'', ''/programs''), (''about-us'', ''/about-us''), (''contact'', ''/contact'')]
   \<and> (\<forall>m \<in> set (navigationMenus p).
         isActive m = (if path m = ''/'' then p = ''/'' else startsWith p (path m)))
   \<and> map (\<lambda>m. (item_id m, path m)) (dashboardNavigation p)
     = [(''dashboard'', ''/dashboard''), (''course'', ''/dashboard/course''),
        (''jobs'', ''/dashboard/jobs''), (''programs'', ''/dashboard/programs'')]
   \<and> (\<forall>m \<in> set (dashboardNavigation p).
         isActive m = (if path m = ''/dashboard'' then p = ''/dashboard''
                       else startsWith p (path m)))"
  by (simp add: navigationMenus_def dashboardNavigation_def)

theorem nav_active_policy_witness:
  "map (\<lambda>m. (item_id m, path m, isActive m, startsWith ''/coursesx'' (path m)))
       (navigationMenus ''/coursesx'')
     = [(''home'', ''/'', False, True),
        (''courses'', ''/courses'', True, True),
        (''opportunities'', ''/opportunities'', False, False),
        (''programs'', ''/programs'', False, False),
        (''about-us'', ''/about-us'', False, False),
        (''contact'', ''/contact'', False, False)]
   \<and> map (\<lambda>m. (item_id m, isActive m)) (navigationMenus ''/'')
     = [(''home'', True), (''courses'', False), (''opportunities'', False),
        (''programs'', False), (''about-us'', False), (''contact'', False)]
   \<and> map (\<lambda>m. (item_id m, path m, isActive m, startsWith ''/dashboard/jobs/7'' (path m)))
       (dashboardNavigation ''/dashboard/jobs/7'')
     = [(''dashboard'', ''/dashboard'', False, True),
        (''course'', ''/dashboard/course'', False, False),
        (''jobs'', ''/dashboard/jobs'', True, True),
        (''programs'', ''/dashboard/programs'', False, False)]
   \<and> map (\<lambda>m. (item_id m, isActive m)) (dashboardNavigation ''/dashboard'')
     = [(''dashboard'', True), (''course'', False), (''jobs'', False), (''programs'', False)]"
  using nav_active_policy [of "''/coursesx''"] nav_active_policy [of "''/''"]
    nav_active_policy [of "''/dashboard/jobs/7''"] nav_active_policy [of "''/dashboard''"]
  by (simp add: navigationMenus_def dashboardNavigation_def startsWith_def)

text \<open>
  C6. In the public navbar, on route path \<open>/\<close> the home item is the only active item, and
  on route path \<open>/courses/123\<close> the courses item is the only active item.
\<close>

theorem nav_active_examples:
  "activeIds (navigationMenus ''/'') = [''home'']
   \<and> activeIds (navigationMenus ''/courses/123'') = [''courses'']"
  by (simp add: navigationMenus_def activeIds_def startsWith_def)

text \<open>
  C10. Whatever the route path, at most one item of the public navbar's list and at most
  one item of the dashboard navbar's list is active.
\<close>

theorem nav_at_most_one_active:
  "length (filter isActive (navigationMenus p)) \<le> 1
   \<and> length (filter isActive (dashboardNavigation p)) \<le> 1"
proof
  have pub: "\<not> (startsWith p a \<and> startsWith p b)"
    if "\<not> prefix a b" "\<not> prefix b a" for a b
    using that startsWith_exclusive by blast
  have root: "\<not> (p = r \<and> startsWith p a)" if "\<not> prefix a r" for r a
    using that by (auto simp: startsWith_def)
  note ex =
    root [of "''/courses''" "''/''"] root [of "''/opportunities''" "''/''"]
    root [of "''/programs''" "''/''"] root [of "''/about-us''" "''/''"]
    root [of "''/contact''" "''/''"]
    pub [of "''/courses''" "''/opportunities''"] pub [of "''/courses''" "''/programs''"]
    pub [of "''/courses''" "''/about-us''"] pub [of "''/courses''" "''/contact''"]
    pub [of "''/opportunities''" "''/programs''"] pub [of "''/opportunities''" "''/about-us''"]
    pub [of "''/opportunities''" "''/contact''"] pub [of "''/programs''" "''/about-us''"]
    pub [of "''/programs''" "''/contact''"] pub [of "''/about-us''" "''/contact''"]
  show "length (filter isActive (navigationMenus p)) \<le> 1"
    using ex by (simp add: navigationMenus_def)
next
  have pub: "\<not> (startsWith p a \<and> startsWith p b)"
    if "\<not> prefix a b" "\<not> prefix b a" for a b
    using that startsWith_exclusive by blast
  have root: "\<not> (p = r \<and> startsWith p a)" if "\<not> prefix a r" for r a
    using that by (auto simp: startsWith_def)
  note ex =
    root [of "''/dashboard/course''" "''/dashboard''"]
    root [of "''/dashboard/jobs''" "''/dashboard''"]
    root [of "''/dashboard/programs''" "''/dashboard''"]
    pub [of "''/dashboard/course''" "''/dashboard/jobs''"]
    pub [of "''/dashboard/course''" "''/dashboard/programs''"]
    pub [of "''/dashboard/jobs''" "''/dashboard/programs''"]
  show "length (filter isActive (dashboardNavigation p)) \<le> 1"
    using ex by (simp add: dashboardNavigation_def)
qed

section \<open>Session-derived display state: results\<close>



text \<open>
  C2, as stated, at the absent session: the dashboard navbar's full name is not the empty
  string.
\<close>

theorem absent_session_counterexample:
  "\<not> (dashboard_fullName (user None) = [])"
  by (simp add: dashboard_fullName_def user_def)

text \<open>
  C2, amended. When the session has no user, the public navbar shows the empty full name
  and the initials \<open>U\<close>, and the dashboard navbar shows the full name \<open>User\<close> and the
  initials \<open>U\<close>. \<open>isAuthenticated\<close> exists in the public navbar only; it is computed
  from the provider's status and is false for the statuses \<open>unauthenticated\<close> and
  \<open>loading\<close>.
\<close>

theorem absent_session_display:
  "user session = None \<Longrightarrow>
     navbar_fullName (user session) = [] \<and> navbar_initials toUpperCase (user session) = ''U''
     \<and> dashboard_fullName (user session) = ''User''
     \<and> dashboard_initials toUpperCase (user session) = ''U''
     \<and> \<not> isAuthenticated unauthenticated \<and> \<not> isAuthenticated loading"
  by (simp add: navbar_fullName_def navbar_initials_def dashboard_fullName_def
      dashboard_initials_def isAuthenticated_def)

theorem absent_session_display_witness:
  "user None = None \<and> user (Some \<lparr> session_user = None \<rparr>) = None
   \<and> navbar_fullName (user None) = []
   \<and> navbar_initials asciiToUpperCase (user None) = ''U''
   \<and> dashboard_fullName (user (Some \<lparr> session_user = None \<rparr>)) = ''User''
   \<and> dashboard_initials asciiToUpperCase (user (Some \<lparr> session_user = None \<rparr>)) = ''U''"
  using absent_session_display [of None asciiToUpperCase]
    absent_session_display [of "Some \<lparr> session_user = None \<rparr>" asciiToUpperCase]
  by (simp add: user_def)



text \<open>
  Outside the declared type: with a last name that is missing or null, the template
  literal of \<open>fullName\<close> inserts the text \<open>undefined\<close> or \<open>null\<close>.
\<close>

lemma fullName_nullish_lastName:
  "navbar_fullName (Some \<lparr> firstName = Str ''Alice'', lastName = Undefined \<rparr>)
     = ''Alice undefined''
   \<and> dashboard_fullName (Some \<lparr> firstName = Str ''Alice'', lastName = Undefined \<rparr>)
     = ''Alice undefined''
   \<and> navbar_fullName (Some \<lparr> firstName = Str ''Alice'', lastName = Null \<rparr>) = ''Alice null''
   \<and> dashboard_fullName (Some \<lparr> firstName = Str ''Alice'', lastName = Null \<rparr>) = ''Alice null''"
  by (simp add: navbar_fullName_def dashboard_fullName_def trim_def isWhiteSpace_def)

section \<open>Listener lifecycle: results\<close>

text \<open>
  The dashboard navbar's mount and unmount leave the registry as it was, and the public
  navbar's unmount removes its scroll listener.
\<close>

lemma dashboard_listener_released:
  "(Document, ''click'', HandleClickOutside i) \<notin> set reg \<Longrightarrow>
   fst (dashboard_unmount (dashboard_onMounted i (reg, []))) = reg"
  by (auto simp: dashboard_unmount_def dashboard_onMounted_def addEventListener_def
      removeEventListener_def Let_def filter_id_conv)

lemma navbar_scroll_listener_released:
  "(Window, ''scroll'', HandleScroll i)
     \<notin> set (snd (navbar_onUnmounted i (navbar_onMounted i y st)))"
  by (simp add: navbar_onUnmounted_def navbar_onMounted_def removeEventListener_def)

text \<open>
  C4, at one mount and unmount of a public navbar instance with no listener registered
  before: the document click listener the instance added is still registered afterwards.
\<close>

theorem navbar_click_listener_leaks:
  "snd (navbar_onUnmounted i (navbar_onMounted i y (navbar_init, [])))
     = [(Document, ''click'', NavbarAnonymousClick i)]"
  by (simp add: navbar_onUnmounted_def navbar_onMounted_def addEventListener_def
      removeEventListener_def)

section \<open>Logout: results\<close>

text \<open>
  C5, as stated, at the dashboard navbar with the menu open and a sign-out that completes:
  the actions do not run in the order sign-out, close menu, navigate.
\<close>

theorem dashboard_logout_order_counterexample:
  "snd (dashboard_handleLogout Fulfilled \<lparr> mobileMenuOpen = True \<rparr>)
     \<noteq> [CallSignOut, SetMobileMenuOpen False, CallNavigateTo ''/'']"
  by (simp add: dashboard_handleLogout_def perform_def)

text \<open>
  C5, amended. The public navbar's logout calls sign-out, then sets the menu flag to
  false, then navigates to \<open>/\<close>. The dashboard navbar's logout sets the menu flag to
  false, then calls sign-out, and navigates to \<open>/\<close> once the sign-out has completed; if
  the sign-out fails or never completes it does not navigate. Both leave the menu closed.
\<close>

theorem logout_order:
  "snd (navbar_handleLogout s) = [CallSignOut, SetMobileMenuOpen False, CallNavigateTo ''/'']
   \<and> \<not> mobileMenuOpen (fst (navbar_handleLogout s))
   \<and> snd (dashboard_handleLogout Fulfilled d)
        = [SetMobileMenuOpen False, CallSignOut, CallNavigateTo ''/'']
   \<and> snd (dashboard_handleLogout Rejected d) = [SetMobileMenuOpen False, CallSignOut]
   \<and> snd (dashboard_handleLogout Pending d) = [SetMobileMenuOpen False, CallSignOut]
   \<and> \<not> mobileMenuOpen (fst (dashboard_handleLogout r d))"
  by (cases r) (simp_all add: navbar_handleLogout_def dashboard_handleLogout_def perform_def)

section \<open>Transient UI state: results\<close>

lemma closest_None_iff: "closest sel ns = None \<longleftrightarrow> (\<forall>n \<in> set ns. tag n \<noteq> sel)"
  by (induction ns) auto

text \<open>
  C7. In both components, when the route path changes the watcher leaves the mobile menu
  closed, whatever the state before (in particular when the menu was open).
\<close>

theorem route_change_closes_menu:
  "new \<noteq> old \<Longrightarrow>
     \<not> mobileMenuOpen (navbar_watch_route_path old new s)
     \<and> \<not> mobileMenuOpen (dashboard_watch_route_path old new d)"
  by (simp add: navbar_watch_route_path_def dashboard_watch_route_path_def)

theorem route_change_closes_menu_witness:
  "''/courses'' \<noteq> ''/'' \<and> mobileMenuOpen (toggleMobileMenu navbar_init)
   \<and> \<not> mobileMenuOpen (navbar_watch_route_path ''/'' ''/courses'' (toggleMobileMenu navbar_init))
   \<and> \<not> mobileMenuOpen (dashboard_watch_route_path ''/'' ''/courses'' \<lparr> mobileMenuOpen = True \<rparr>)"
  using route_change_closes_menu [of "''/courses''" "''/''" "toggleMobileMenu navbar_init"
      "\<lparr> mobileMenuOpen = True \<rparr>"]
  by (simp add: toggleMobileMenu_def navbar_init_def)

text \<open>
  C8, as stated, with the navbar's own header element being node 1 and the menu open: a
  click on a heading inside another \<open>header\<close> element of the page (node 20) has a target
  that is not within the navbar's header, and the listener of either component leaves the
  menu open.
\<close>

theorem click_in_other_header_counterexample:
  "\<lparr> tag = ''header'', node_id = 1 \<rparr>
      \<notin> set [\<lparr> tag = ''h1'', node_id = 21 \<rparr>, \<lparr> tag = ''header'', node_id = 20 \<rparr>,
             \<lparr> tag = ''main'', node_id = 3 \<rparr>, \<lparr> tag = ''body'', node_id = 2 \<rparr>]
   \<and> navbar_clickListener
        (Element \<lparr> tag = ''h1'', node_id = 21 \<rparr>
           [\<lparr> tag = ''header'', node_id = 20 \<rparr>, \<lparr> tag = ''main'', node_id = 3 \<rparr>,
            \<lparr> tag = ''body'', node_id = 2 \<rparr>])
        \<lparr> mobileMenuOpen = True, isScrolled = False, showLoginDialog = False \<rparr>
      = Inr \<lparr> mobileMenuOpen = True, isScrolled = False, showLoginDialog = False \<rparr>
   \<and> handleClickOutside
        (Element \<lparr> tag = ''h1'', node_id = 21 \<rparr>
           [\<lparr> tag = ''header'', node_id = 20 \<rparr>, \<lparr> tag = ''main'', node_id = 3 \<rparr>,
            \<lparr> tag = ''body'', node_id = 2 \<rparr>])
        \<lparr> mobileMenuOpen = True \<rparr>
      = Inr \<lparr> mobileMenuOpen = True \<rparr>"
  by (simp add: navbar_clickListener_def handleClickOutside_def)

text \<open>
  C8, amended. In both components, a document click whose target element has no
  \<open>header\<close> element among itself and its ancestors sets the mobile-menu-open flag to
  false and changes nothing else, and a click whose target element lies within any
  \<open>header\<close> element (the navbar's own or another one of the page) leaves the state
  unchanged.
\<close>

theorem click_outside_header:
  "((\<forall>n \<in> set (e # ancestors). tag n \<noteq> ''header'') \<longrightarrow>
      navbar_clickListener (Element e ancestors) s = Inr (s\<lparr> mobileMenuOpen := False \<rparr>)
      \<and> handleClickOutside (Element e ancestors) d = Inr (d\<lparr> mobileMenuOpen := False \<rparr>))
   \<and> ((\<exists>n \<in> set (e # ancestors). tag n = ''header'') \<longrightarrow>
      navbar_clickListener (Element e ancestors) s = Inr s
      \<and> handleClickOutside (Element e ancestors) d = Inr d)"
  unfolding navbar_clickListener_def handleClickOutside_def
  by (auto simp: closest_None_iff simp del: closest.simps)

theorem click_outside_header_witness:
  "navbar_clickListener
      (Element \<lparr> tag = ''a'', node_id = 9 \<rparr>
         [\<lparr> tag = ''main'', node_id = 3 \<rparr>, \<lparr> tag = ''body'', node_id = 2 \<rparr>])
      (toggleMobileMenu navbar_init)
     = Inr navbar_init
   \<and> handleClickOutside
      (Element \<lparr> tag = ''a'', node_id = 9 \<rparr>
         [\<lparr> tag = ''main'', node_id = 3 \<rparr>, \<lparr> tag = ''body'', node_id = 2 \<rparr>])
      \<lparr> mobileMenuOpen = True \<rparr>
     = Inr \<lparr> mobileMenuOpen = False \<rparr>
   \<and> navbar_clickListener
      (Element \<lparr> tag = ''button'', node_id = 5 \<rparr>
         [\<lparr> tag = ''header'', node_id = 1 \<rparr>, \<lparr> tag = ''body'', node_id = 2 \<rparr>])
      (toggleMobileMenu navbar_init)
     = Inr (toggleMobileMenu navbar_init)
   \<and> handleClickOutside
      (Element \<lparr> tag = ''button'', node_id = 5 \<rparr>
         [\<lparr> tag = ''header'', node_id = 1 \<rparr>, \<lparr> tag = ''body'', node_id = 2 \<rparr>])
      \<lparr> mobileMenuOpen = True \<rparr>
     = Inr \<lparr> mobileMenuOpen = True \<rparr>
   \<and> mobileMenuOpen (toggleMobileMenu navbar_init)"
  using click_outside_header [of "\<lparr> tag = ''a'', node_id = 9 \<rparr>"
      "[\<lparr> tag = ''main'', node_id = 3 \<rparr>, \<lparr> tag = ''body'', node_id = 2 \<rparr>]"
      "toggleMobileMenu navbar_init" "\<lparr> mobileMenuOpen = True \<rparr>"]
    click_outside_header [of "\<lparr> tag = ''button'', node_id = 5 \<rparr>"
      "[\<lparr> tag = ''header'', node_id = 1 \<rparr>, \<lparr> tag = ''body'', node_id = 2 \<rparr>]"
      "toggleMobileMenu navbar_init" "\<lparr> mobileMenuOpen = True \<rparr>"]
  by (simp add: toggleMobileMenu_def navbar_init_def)

text \<open>
  C9. In the public navbar, after a scroll event is handled the shadow flag says whether
  the vertical scroll offset is greater than zero: going from offset 0 to a positive
  offset sets it, and going back to 0 clears it.
\<close>

theorem scroll_shadow_flag:
  "isScrolled (handleScroll y s) = (y > 0)
   \<and> (y > 0 \<longrightarrow> isScrolled (handleScroll y (handleScroll 0 s)))
   \<and> \<not> isScrolled (handleScroll 0 (handleScroll y s))"
  by (simp add: handleScroll_def)

theorem scroll_shadow_flag_witness:
  "(120::real) > 0
   \<and> \<not> isScrolled (handleScroll 0 navbar_init)
   \<and> isScrolled (handleScroll 120 (handleScroll 0 navbar_init))
   \<and> \<not> isScrolled (handleScroll 0 (handleScroll 120 navbar_init))"
  using scroll_shadow_flag [of 120 navbar_init] scroll_shadow_flag [of 0 navbar_init]
  by simp

end
